theory Spec2Isabelle
  imports Main
begin

section \<open>C strings and the libc calls the launchers use\<close>

text \<open>
  A C string is modelled as the list of its bytes before the terminating NUL.
  The formatted text of a \<^verbatim>\<open>snprintf\<close> call is passed already concatenated;
  \<^verbatim>\<open>snprintf(buf, n, ...)\<close> stores at most \<open>n - 1\<close> bytes of it and the NUL,
  silently dropping the rest.
\<close>

definition snprintf_c :: "nat \<Rightarrow> string \<Rightarrow> string" where
  "snprintf_c n s = take (n - 1) s"

text \<open>
  \<^verbatim>\<open>strncpy(dst, src, n)\<close> copies the first \<open>n\<close> bytes of \<open>src\<close>; the result is
  NUL-terminated inside \<open>dst\<close> when \<open>length src < n\<close>.
\<close>

definition strncpy_c :: "nat \<Rightarrow> string \<Rightarrow> string" where
  "strncpy_c n s = take n s"

text \<open>
  \<^verbatim>\<open>strrchr(s, c)\<close>: the offset of the last occurrence of \<open>c\<close> in \<open>s\<close>,
  \<open>None\<close> for the NULL pointer returned when there is none.
\<close>

fun strrchr :: "string \<Rightarrow> char \<Rightarrow> nat option" where
  "strrchr [] c = None"
| "strrchr (x # xs) c =
     (case strrchr xs c of
        Some i \<Rightarrow> Some (Suc i)
      | None \<Rightarrow> if x = c then Some 0 else None)"

section \<open>Observable events of a launcher run\<close>

text \<open>
  A run of either launcher is described by the sequence of calls it makes to the
  outside world, in program order, and by how the process ends. A call of the
  runtime's configuration API is recorded with the status it returned.
\<close>

datatype PyStatus = PyStatus_Ok | PyStatus_Error string | PyStatus_Exit int

datatype config_field = Program_name | Home | Pythonpath_env

record PyConfig =
  isolated :: int
  use_environment :: int
  user_site_directory :: int
  write_bytecode :: int
  configure_c_stdio :: int
  buffered_stdio :: int
  program_name :: "string option"
  home :: "string option"
  pythonpath_env :: "string option"
  argv_cfg :: "string list"

datatype event =
    Stderr string
  | Ev_free
  | Ev_setenv string string int
  | Ev_dlopen string
  | Ev_dlsym nat string
  | Ev_call_Py_Main int "string list"
  | Ev_dlclose nat
  | Ev_PyConfig_InitPythonConfig
  | Ev_PyConfig_SetBytesString config_field string PyStatus
  | Ev_PyConfig_SetBytesArgv int "string list" PyStatus
  | Ev_Py_InitializeFromConfig PyConfig PyStatus
  | Ev_PyConfig_Clear
  | Ev_Py_ExitStatusException PyStatus
  | Ev_Py_RunMain int

section \<open>Variant B: the dynamic-load launcher (python_executable_stub.c)\<close>

text \<open>
  What the operating system answers. \<open>realpath_null p\<close> is
  \<^verbatim>\<open>realpath(p, NULL)\<close> (\<open>None\<close> for NULL, also for the argument);
  \<open>dlopen\<close> and \<open>dlsym\<close> return either the text \<^verbatim>\<open>dlerror()\<close> gives after the
  failure, or the handle, respectively the function behind the symbol. The entry
  point is taken to return; its result is a C \<^verbatim>\<open>int\<close>. In both launchers
  \<^verbatim>\<open>argv\<close> is the list of the arguments and \<^verbatim>\<open>argc\<close> its length.
\<close>

record dl_platform =
  realpath_null :: "string option \<Rightarrow> string option"
  dlopen :: "string \<Rightarrow> string + nat"
  dlsym :: "nat \<Rightarrow> string \<Rightarrow> string + (int \<Rightarrow> string list \<Rightarrow> int)"

definition argv0 :: "string list \<Rightarrow> string option" where
  "argv0 argv = (case argv of [] \<Rightarrow> None | a # _ \<Rightarrow> Some a)"

definition dev_framework_path :: string where
  "dev_framework_path =
     ''/Users/mhm/Documents/Hobby/Marcut-2/build/MarcutApp.app/Contents/Frameworks/Python.framework/Versions/3.11/Python''"

definition framework_offset :: string where
  "framework_offset = ''/../Frameworks/Python.framework/Versions/3.11/Python''"

text \<open>Lines 16-24: the library path computed from the resolved executable path.\<close>

definition framework_path :: "string \<Rightarrow> string" where
  "framework_path exe_path =
     (case strrchr exe_path CHR ''/'' of
        Some i \<Rightarrow> snprintf_c 1024 (take i exe_path @ framework_offset)
      | None \<Rightarrow> dev_framework_path)"

text \<open>Lines 29-34: the value exported as PYTHONHOME.\<close>

definition python_home_B :: "string \<Rightarrow> string" where
  "python_home_B fw_path =
     (let python_home = strncpy_c 1024 fw_path in
      case strrchr python_home CHR ''/'' of
        Some j \<Rightarrow> take j python_home
      | None \<Rightarrow> python_home)"

text \<open>Lines 35-56: export the home, load the library, resolve and call the entry point.\<close>

definition load_and_run :: "dl_platform \<Rightarrow> string list \<Rightarrow> string \<Rightarrow> event list \<times> int" where
  "load_and_run pf argv fw_path =
     (let pre = [Ev_free, Ev_setenv ''PYTHONHOME'' (python_home_B fw_path) 1, Ev_dlopen fw_path] in
      case dlopen pf fw_path of
        Inl err \<Rightarrow>
          (pre @ [Stderr (''Failed to load Python framework: '' @ err @ [CHR 0x0A])], 1)
      | Inr handle \<Rightarrow>
          (case dlsym pf handle ''Py_Main'' of
             Inl err \<Rightarrow>
               (pre @ [Ev_dlsym handle ''Py_Main'',
                       Stderr (''Failed to find Py_Main: '' @ err @ [CHR 0x0A]),
                       Ev_dlclose handle], 1)
           | Inr Py_Main \<Rightarrow>
               (let result = Py_Main (int (length argv)) argv in
                (pre @ [Ev_dlsym handle ''Py_Main'',
                        Ev_call_Py_Main (int (length argv)) argv,
                        Ev_dlclose handle], result))))"

definition main_B :: "dl_platform \<Rightarrow> string list \<Rightarrow> event list \<times> int" where
  "main_B pf argv =
     (case realpath_null pf (argv0 argv) of
        None \<Rightarrow> ([Stderr (''Could not determine executable path'' @ [CHR 0x0A])], 1)
      | Some exe_path \<Rightarrow> load_and_run pf argv (framework_path exe_path))"

section \<open>Variant A: the configuration-API launcher (python_embed_stub.c)\<close>

text \<open>
  What the platform answers. \<open>PATH_MAX\<close> is the size of every path buffer of
  \<^verbatim>\<open>main\<close> (1024 on Darwin). \<open>NSGetExecutablePath n\<close> is the path
  \<^verbatim>\<open>_NSGetExecutablePath\<close> stores in a buffer of \<open>n\<close> bytes, \<open>None\<close> when it
  does not return 0. \<open>dirname\<close> and \<open>realpath\<close> return \<open>None\<close> for NULL;
  \<open>access_R_OK p\<close> holds when \<^verbatim>\<open>access(p, R_OK)\<close> is 0. The runtime gives
  the freshly initialised configuration, the status of each API call, and the result
  of its main loop.
\<close>

record embed_platform =
  PATH_MAX :: nat
  NSGetExecutablePath :: "nat \<Rightarrow> string option"
  dirname :: "string option \<Rightarrow> string option"
  realpath :: "string \<Rightarrow> string option"
  access_R_OK :: "string \<Rightarrow> bool"
  PyConfig_InitPythonConfig :: PyConfig
  PyConfig_SetBytesString :: "PyConfig \<Rightarrow> config_field \<Rightarrow> string \<Rightarrow> PyStatus"
  PyConfig_SetBytesArgv :: "PyConfig \<Rightarrow> int \<Rightarrow> string list \<Rightarrow> PyStatus"
  Py_InitializeFromConfig :: "PyConfig \<Rightarrow> PyStatus"
  Py_RunMain :: int

text \<open>How the process ends: \<^verbatim>\<open>main\<close> returns, or the runtime's
  \<^verbatim>\<open>Py_ExitStatusException\<close> ends it with the status it was given.\<close>

datatype outcome = Returned int | Exited PyStatus

fun PyStatus_Exception :: "PyStatus \<Rightarrow> bool" where
  "PyStatus_Exception PyStatus_Ok = False"
| "PyStatus_Exception (PyStatus_Error msg) = True"
| "PyStatus_Exception (PyStatus_Exit code) = True"

text \<open>
  Lines 10-17. \<open>config_given\<close> says that the \<^verbatim>\<open>config\<close> argument is not NULL.
  \<open>Some evs\<close>: the process ended inside the handler after the calls \<open>evs\<close>;
  \<open>None\<close>: the handler returned.
\<close>

definition handle_status :: "PyStatus \<Rightarrow> bool \<Rightarrow> event list option" where
  "handle_status status config_given =
     (if PyStatus_Exception status
      then Some ((if config_given then [Ev_PyConfig_Clear] else [])
                 @ [Ev_Py_ExitStatusException status])
      else None)"

text \<open>A successful \<^verbatim>\<open>PyConfig_SetBytesString(&config, &config.f, s)\<close> stores \<open>s\<close>
  in field \<open>f\<close>; a successful \<^verbatim>\<open>PyConfig_SetBytesArgv(&config, argc, argv)\<close>
  stores the first \<open>argc\<close> entries of \<open>argv\<close>.\<close>

definition set_bytes_string :: "config_field \<Rightarrow> string \<Rightarrow> PyConfig \<Rightarrow> PyConfig" where
  "set_bytes_string f s c =
     (case f of
        Program_name \<Rightarrow> c\<lparr>program_name := Some s\<rparr>
      | Home \<Rightarrow> c\<lparr>home := Some s\<rparr>
      | Pythonpath_env \<Rightarrow> c\<lparr>pythonpath_env := Some s\<rparr>)"

definition set_bytes_argv :: "int \<Rightarrow> string list \<Rightarrow> PyConfig \<Rightarrow> PyConfig" where
  "set_bytes_argv argc argv c = c\<lparr>argv_cfg := take (nat argc) argv\<rparr>"

text \<open>Line 47.\<close>

definition python_home_link_buf :: "nat \<Rightarrow> string \<Rightarrow> string" where
  "python_home_link_buf pmax contents_dir =
     snprintf_c pmax (contents_dir @ ''/Frameworks/Python.framework/Versions/Current'')"

text \<open>Lines 53-54.\<close>

definition python_version :: "string \<Rightarrow> string" where
  "python_version python_home =
     (case strrchr python_home CHR ''/'' of
        Some i \<Rightarrow>
          if drop (Suc i) python_home \<noteq> [] then drop (Suc i) python_home else ''3.10''
      | None \<Rightarrow> ''3.10'')"

text \<open>Line 55.\<close>

definition program_name_buf :: "nat \<Rightarrow> string \<Rightarrow> string" where
  "program_name_buf pmax python_home = snprintf_c pmax (python_home @ ''/bin/python3'')"

text \<open>Line 59.\<close>

definition python_site_path_buf :: "nat \<Rightarrow> string \<Rightarrow> string" where
  "python_site_path_buf pmax contents_dir =
     snprintf_c pmax (contents_dir @ ''/Resources/python_site'')"

text \<open>Lines 66-67.\<close>

definition python_path_buf :: "nat \<Rightarrow> string \<Rightarrow> string \<Rightarrow> string \<Rightarrow> string" where
  "python_path_buf pmax contents_dir python_home version =
     snprintf_c pmax
       (contents_dir @ ''/Resources/python_site:''
        @ python_home @ ''/lib/python'' @ version @ '':''
        @ python_home @ ''/lib/python'' @ version @ ''/lib-dynload'')"

text \<open>Lines 69-99: build the configuration, initialise the runtime, run its main loop.\<close>

definition configure_and_run ::
  "embed_platform \<Rightarrow> string list \<Rightarrow> string \<Rightarrow> string \<Rightarrow> string \<Rightarrow> event list \<times> outcome" where
  "configure_and_run pf argv program_name_s python_home python_path =
     (let config0 = (PyConfig_InitPythonConfig pf)
                      \<lparr>use_environment := 0, user_site_directory := 0, write_bytecode := 0\<rparr>;
          status1 = PyConfig_SetBytesString pf config0 Program_name program_name_s;
          tr1 = [Ev_PyConfig_InitPythonConfig,
                 Ev_PyConfig_SetBytesString Program_name program_name_s status1]
      in case handle_status status1 True of
           Some evs \<Rightarrow> (tr1 @ evs, Exited status1)
         | None \<Rightarrow>
     (let config1 = set_bytes_string Program_name program_name_s config0;
          status2 = PyConfig_SetBytesString pf config1 Home python_home;
          tr2 = tr1 @ [Ev_PyConfig_SetBytesString Home python_home status2]
      in case handle_status status2 True of
           Some evs \<Rightarrow> (tr2 @ evs, Exited status2)
         | None \<Rightarrow>
     (let config2 = set_bytes_string Home python_home config1;
          status3 = PyConfig_SetBytesString pf config2 Pythonpath_env python_path;
          tr3 = tr2 @ [Ev_PyConfig_SetBytesString Pythonpath_env python_path status3]
      in case handle_status status3 True of
           Some evs \<Rightarrow> (tr3 @ evs, Exited status3)
         | None \<Rightarrow>
     (let config3 = (set_bytes_string Pythonpath_env python_path config2)
                      \<lparr>isolated := 1, use_environment := 0,
                       configure_c_stdio := 0, buffered_stdio := 0\<rparr>;
          argc = int (length argv);
          status4 = PyConfig_SetBytesArgv pf config3 argc argv;
          tr4 = tr3 @ [Ev_PyConfig_SetBytesArgv argc argv status4]
      in case handle_status status4 True of
           Some evs \<Rightarrow> (tr4 @ evs, Exited status4)
         | None \<Rightarrow>
     (let config4 = set_bytes_argv argc argv config3;
          status5 = Py_InitializeFromConfig pf config4;
          tr5 = tr4 @ [Ev_Py_InitializeFromConfig config4 status5, Ev_PyConfig_Clear]
      in case handle_status status5 False of
           Some evs \<Rightarrow> (tr5 @ evs, Exited status5)
         | None \<Rightarrow>
     (let exit_code = Py_RunMain pf
      in (tr5 @ [Ev_Py_RunMain exit_code], Returned exit_code)))))))"

text \<open>Lines 19-67: the local preconditions, then the configuration.\<close>

definition main_A :: "embed_platform \<Rightarrow> string list \<Rightarrow> event list \<times> outcome" where
  "main_A pf argv =
     (case NSGetExecutablePath pf (PATH_MAX pf) of
        None \<Rightarrow>
          ([Stderr (''python3_embed: Failed to get executable path'' @ [CHR 0x0A])], Returned 1)
      | Some executable_path \<Rightarrow>
     (let app_dir = dirname pf (Some executable_path);
          contents_dir_ptr = dirname pf app_dir
      in case (app_dir, contents_dir_ptr) of
           (Some _, Some contents_dir) \<Rightarrow>
             (let python_home_link = python_home_link_buf (PATH_MAX pf) contents_dir
              in case realpath pf python_home_link of
                   None \<Rightarrow>
                     ([Stderr (''python3_embed: Unable to resolve Python home at ''
                               @ python_home_link @ [CHR 0x0A])], Returned 1)
                 | Some python_home \<Rightarrow>
                     (let version = python_version python_home;
                          program_name_s = program_name_buf (PATH_MAX pf) python_home;
                          python_site_path = python_site_path_buf (PATH_MAX pf) contents_dir
                      in if \<not> access_R_OK pf python_site_path
                         then ([Stderr (''python3_embed: python_site not found at ''
                                        @ python_site_path @ [CHR 0x0A])], Returned 1)
                         else configure_and_run pf argv program_name_s python_home
                                (python_path_buf (PATH_MAX pf) contents_dir python_home version)))
         | _ \<Rightarrow>
             ([Stderr (''python3_embed: Failed to resolve app directory structure''
                       @ [CHR 0x0A])], Returned 1)))"

section \<open>What the specification names\<close>

text \<open>The entries of a search path, joined with the path separator.\<close>

fun join_paths :: "string list \<Rightarrow> string" where
  "join_paths [] = []"
| "join_paths [p] = p"
| "join_paths (p # q # ps) = p @ '':'' @ join_paths (q # ps)"

text \<open>
  The search path as the specification words it: the bundled site directory, the
  runtime's standard-library directory, its dynamic-extension directory.
\<close>

definition search_path_spec :: "string \<Rightarrow> string \<Rightarrow> string \<Rightarrow> string" where
  "search_path_spec contents_dir runtime_home version =
     join_paths [contents_dir @ ''/Resources/python_site'',
                 runtime_home @ ''/lib/python'' @ version,
                 runtime_home @ ''/lib/python'' @ version @ ''/lib-dynload'']"

text \<open>The final segment of a path: what follows its last separator.\<close>

definition final_path_segment :: "string \<Rightarrow> string" where
  "final_path_segment p = rev (takeWhile (\<lambda>c. c \<noteq> CHR ''/'') (rev p))"

text \<open>The configurations handed to the initialisation call during a run.\<close>

fun init_configs :: "event list \<Rightarrow> PyConfig list" where
  "init_configs [] = []"
| "init_configs (Ev_Py_InitializeFromConfig cfg st # es) = cfg # init_configs es"
| "init_configs (e # es) = init_configs es"

text \<open>The status the runtime returned at an API call.\<close>

fun status_of :: "event \<Rightarrow> PyStatus option" where
  "status_of (Ev_PyConfig_SetBytesString f s st) = Some st"
| "status_of (Ev_PyConfig_SetBytesArgv n a st) = Some st"
| "status_of (Ev_Py_InitializeFromConfig cfg st) = Some st"
| "status_of e = None"

fun is_Stderr :: "event \<Rightarrow> bool" where
  "is_Stderr (Stderr m) = True"
| "is_Stderr e = False"

text \<open>Acquisitions and releases of a library handle.\<close>

fun is_dlopen :: "event \<Rightarrow> bool" where
  "is_dlopen (Ev_dlopen p) = True"
| "is_dlopen e = False"

fun is_dlclose :: "event \<Rightarrow> bool" where
  "is_dlclose (Ev_dlclose h) = True"
| "is_dlclose e = False"

section \<open>Example platforms\<close>

text \<open>
  A well-formed bundle at \<^verbatim>\<open>/App\<close>: the executable in \<^verbatim>\<open>Contents/MacOS\<close>,
  \<^verbatim>\<open>Versions/Current\<close> a link to \<^verbatim>\<open>Versions/3.11\<close>, the site directory
  present, and a runtime that accepts every call.
\<close>

definition default_config :: PyConfig where
  "default_config =
     \<lparr>isolated = 0, use_environment = 1, user_site_directory = 1, write_bytecode = 1,
      configure_c_stdio = 1, buffered_stdio = 1, program_name = None, home = None,
      pythonpath_env = None, argv_cfg = []\<rparr>"

definition bundle_platform :: embed_platform where
  "bundle_platform =
     \<lparr>PATH_MAX = 1024,
      NSGetExecutablePath = (\<lambda>n. Some ''/App/Contents/MacOS/python3''),
      dirname = (\<lambda>p. if p = Some ''/App/Contents/MacOS/python3'' then Some ''/App/Contents/MacOS''
                      else if p = Some ''/App/Contents/MacOS'' then Some ''/App/Contents''
                      else Some ''.''),
      realpath = (\<lambda>p. if p = ''/App/Contents/Frameworks/Python.framework/Versions/Current''
                       then Some ''/App/Contents/Frameworks/Python.framework/Versions/3.11''
                       else None),
      access_R_OK = (\<lambda>p. p = ''/App/Contents/Resources/python_site''),
      PyConfig_InitPythonConfig = default_config,
      PyConfig_SetBytesString = (\<lambda>c f s. PyStatus_Ok),
      PyConfig_SetBytesArgv = (\<lambda>c n a. PyStatus_Ok),
      Py_InitializeFromConfig = (\<lambda>c. PyStatus_Ok),
      Py_RunMain = 0\<rparr>"

text \<open>The configuration this bundle's launcher hands to the runtime.\<close>

definition bundle_config :: "string list \<Rightarrow> PyConfig" where
  "bundle_config argv =
     \<lparr>isolated = 1, use_environment = 0, user_site_directory = 0, write_bytecode = 0,
      configure_c_stdio = 0, buffered_stdio = 0,
      program_name = Some ''/App/Contents/Frameworks/Python.framework/Versions/3.11/bin/python3'',
      home = Some ''/App/Contents/Frameworks/Python.framework/Versions/3.11'',
      pythonpath_env = Some ''/App/Contents/Resources/python_site:/App/Contents/Frameworks/Python.framework/Versions/3.11/lib/python3.11:/App/Contents/Frameworks/Python.framework/Versions/3.11/lib/python3.11/lib-dynload'',
      argv_cfg = argv\<rparr>"

text \<open>The same bundle with one thing wrong at a time.\<close>

definition no_exe_path_platform :: embed_platform where
  "no_exe_path_platform = bundle_platform\<lparr>NSGetExecutablePath := (\<lambda>n. None)\<rparr>"

definition broken_link_platform :: embed_platform where
  "broken_link_platform = bundle_platform\<lparr>realpath := (\<lambda>p. None)\<rparr>"

definition no_site_platform :: embed_platform where
  "no_site_platform = bundle_platform\<lparr>access_R_OK := (\<lambda>p. False)\<rparr>"

definition no_dirname_platform :: embed_platform where
  "no_dirname_platform = bundle_platform\<lparr>dirname := (\<lambda>p. None)\<rparr>"

definition failing_init_platform :: embed_platform where
  "failing_init_platform =
     bundle_platform\<lparr>Py_InitializeFromConfig := (\<lambda>c. PyStatus_Error ''init failed'')\<rparr>"

text \<open>A runtime home of 1016 bytes, and an executable directory of 1001 bytes.\<close>

definition long_home :: string where
  "long_home = CHR ''/'' # replicate 1015 CHR ''a''"

definition long_dir :: string where
  "long_dir = CHR ''/'' # replicate 1000 CHR ''a''"

text \<open>
  A bundle whose contents directory has 986 bytes. Its \<^verbatim>\<open>Versions\<close> directory
  exists, the \<^verbatim>\<open>Versions/Current\<close> link in it resolves to nothing, and the site
  directory is present.
\<close>

definition long_contents :: string where
  "long_contents = CHR ''/'' # replicate 985 CHR ''c''"

definition cut_link_platform :: embed_platform where
  "cut_link_platform =
     \<lparr>PATH_MAX = 1024,
      NSGetExecutablePath = (\<lambda>n. Some (long_contents @ ''/MacOS/python3'')),
      dirname = (\<lambda>p. if p = Some (long_contents @ ''/MacOS/python3'')
                      then Some (long_contents @ ''/MacOS'')
                      else if p = Some (long_contents @ ''/MacOS'') then Some long_contents
                      else Some ''.''),
      realpath = (\<lambda>p. if p = long_contents @ ''/Frameworks/Python.framework/Versions''
                       then Some (long_contents @ ''/Frameworks/Python.framework/Versions'')
                       else None),
      access_R_OK = (\<lambda>p. p = long_contents @ ''/Resources/python_site''),
      PyConfig_InitPythonConfig = default_config,
      PyConfig_SetBytesString = (\<lambda>c f s. PyStatus_Ok),
      PyConfig_SetBytesArgv = (\<lambda>c n a. PyStatus_Ok),
      Py_InitializeFromConfig = (\<lambda>c. PyStatus_Ok),
      Py_RunMain = 0\<rparr>"

definition long_home_platform :: embed_platform where
  "long_home_platform = bundle_platform\<lparr>realpath := (\<lambda>p. Some long_home)\<rparr>"

text \<open>
  For the dynamic-load launcher: the executable at \<open>exe\<close> (\<open>None\<close>: its path does
  not resolve), a loader that finds only the library at \<open>lib\<close>, and an entry point
  that returns the number of its arguments.
\<close>

definition dl_example :: "string option \<Rightarrow> string \<Rightarrow> bool \<Rightarrow> dl_platform" where
  "dl_example exe lib has_entry =
     \<lparr>realpath_null = (\<lambda>p. case p of None \<Rightarrow> None | Some _ \<Rightarrow> exe),
      dlopen = (\<lambda>p. if p = lib then Inr 7 else Inl ''image not found''),
      dlsym = (\<lambda>h s. if has_entry \<and> s = ''Py_Main'' then Inr (\<lambda>argc argv. argc)
                      else Inl ''symbol not found'')\<rparr>"

section \<open>Facts about the string primitives\<close>

lemma strrchr_None_iff: "strrchr s c = None \<longleftrightarrow> c \<notin> set s"
  by (induction s) (auto split: option.splits)

lemma strrchr_append_sep: "c \<notin> set name \<Longrightarrow> strrchr (d @ c # name) c = Some (length d)"
proof (induction d)
  case Nil
  then have "strrchr name c = None" by (simp add: strrchr_None_iff)
  then show ?case by simp
next
  case (Cons x d)
  then show ?case by simp
qed

lemma strrchr_Some_split:
  "strrchr s c = Some i \<Longrightarrow>
     s = take i s @ c # drop (Suc i) s \<and> c \<notin> set (drop (Suc i) s) \<and> i < length s"
proof (induction s arbitrary: i)
  case Nil
  then show ?case by simp
next
  case (Cons x xs)
  show ?case
  proof (cases "strrchr xs c")
    case None
    with Cons.prems have "x = c" "i = 0" by (auto split: if_splits)
    moreover from None have "c \<notin> set xs" by (simp add: strrchr_None_iff)
    ultimately show ?thesis by simp
  next
    case (Some j)
    with Cons.prems have i: "i = Suc j" by simp
    from Cons.IH [OF Some] show ?thesis unfolding i by simp
  qed
qed

lemma final_segment_sep:
  assumes "c \<notin> set name"
  shows "rev (takeWhile (\<lambda>x. x \<noteq> c) (rev (d @ c # name))) = name"
proof -
  have "takeWhile (\<lambda>x. x \<noteq> c) (rev name @ c # rev d)
          = rev name @ takeWhile (\<lambda>x. x \<noteq> c) (c # rev d)"
    by (rule takeWhile_append2) (use assms in auto)
  then show ?thesis by simp
qed

lemma snprintf_c_fits: "length s < n \<Longrightarrow> snprintf_c n s = s"
  by (simp add: snprintf_c_def)

section \<open>Variant A: the runtime version\<close>

text \<open>
  C6. The version string is the final path segment of the resolved runtime home, and
  the fixed token 3.10 when that segment is empty. The resolved home is the result of
  \<^verbatim>\<open>realpath\<close>, an absolute path, so it contains a separator.
\<close>

theorem runtime_version_is_final_segment:
  assumes "CHR ''/'' \<in> set python_home"
  shows "python_version python_home =
           (if final_path_segment python_home = [] then ''3.10''
            else final_path_segment python_home)"
proof -
  from assms obtain i where i: "strrchr python_home CHR ''/'' = Some i"
    by (cases "strrchr python_home CHR ''/''") (auto simp: strrchr_None_iff)
  from strrchr_Some_split [OF i]
  have split: "python_home = take i python_home @ CHR ''/'' # drop (Suc i) python_home"
    and tail: "CHR ''/'' \<notin> set (drop (Suc i) python_home)" by simp_all
  have "final_path_segment python_home =
          rev (takeWhile (\<lambda>c. c \<noteq> CHR ''/'')
                 (rev (take i python_home @ CHR ''/'' # drop (Suc i) python_home)))"
    unfolding final_path_segment_def using split by simp
  also have "\<dots> = drop (Suc i) python_home"
    by (rule final_segment_sep [OF tail])
  finally show ?thesis by (simp add: python_version_def i)
qed

theorem runtime_version_is_final_segment_witness:
  "CHR ''/'' \<in> set ''/App/Contents/Frameworks/Python.framework/Versions/3.11''
   \<and> final_path_segment ''/App/Contents/Frameworks/Python.framework/Versions/3.11'' = ''3.11''
   \<and> python_version ''/App/Contents/Frameworks/Python.framework/Versions/3.11'' = ''3.11''
   \<and> CHR ''/'' \<in> set ''/''
   \<and> final_path_segment ''/'' = []
   \<and> python_version ''/'' = ''3.10''"
proof -
  have h1: "CHR ''/'' \<in> set ''/App/Contents/Frameworks/Python.framework/Versions/3.11''"
    by simp
  have h2: "CHR ''/'' \<in> set ''/''" by simp
  have s1: "final_path_segment ''/App/Contents/Frameworks/Python.framework/Versions/3.11''
              = ''3.11''"
    by (simp add: final_path_segment_def)
  have s2: "final_path_segment ''/'' = []"
    by (simp add: final_path_segment_def)
  show ?thesis
    using runtime_version_is_final_segment [OF h1] runtime_version_is_final_segment [OF h2]
      h1 h2 s1 s2
    by simp
qed

section \<open>Variant A: the search path\<close>

lemma python_path_buf_spec:
  "python_path_buf pmax c h v = snprintf_c pmax (search_path_spec c h v)"
  by (simp add: python_path_buf_def search_path_spec_def)

text \<open>
  C3, as the code has it. The search path is the first \<open>PATH_MAX - 1\<close> bytes of the
  joined list site, standard library, lib-dynload; it is the whole list, in that order,
  whenever the list is shorter than \<open>PATH_MAX\<close> bytes.
\<close>

theorem search_path_order:
  "python_path_buf pmax contents_dir python_home version
     = take (pmax - 1) (search_path_spec contents_dir python_home version)
   \<and> (length (search_path_spec contents_dir python_home version) < pmax \<longrightarrow>
        python_path_buf pmax contents_dir python_home version
          = search_path_spec contents_dir python_home version)"
  by (simp add: python_path_buf_spec snprintf_c_def)

theorem search_path_order_witness:
  "length (search_path_spec ''/App/Contents''
             ''/App/Contents/Frameworks/Python.framework/Versions/3.11'' ''3.11'') < 1024
   \<and> python_path_buf 1024 ''/App/Contents''
         ''/App/Contents/Frameworks/Python.framework/Versions/3.11'' ''3.11''
       = ''/App/Contents/Resources/python_site:/App/Contents/Frameworks/Python.framework/Versions/3.11/lib/python3.11:/App/Contents/Frameworks/Python.framework/Versions/3.11/lib/python3.11/lib-dynload''"
proof -
  have h: "length (search_path_spec ''/App/Contents''
                     ''/App/Contents/Frameworks/Python.framework/Versions/3.11'' ''3.11'') < 1024"
    by (simp add: search_path_spec_def)
  from search_path_order [of 1024 "''/App/Contents''"
      "''/App/Contents/Frameworks/Python.framework/Versions/3.11''" "''3.11''",
      THEN conjunct2, THEN mp, OF h]
  show ?thesis using h by (simp add: search_path_spec_def)
qed

text \<open>
  With a contents directory and a runtime home of 601 bytes each, the joined list has
  more than 1023 bytes and the buffer holds only its beginning: the claim of C3 for
  every input fails.
\<close>

theorem search_path_counterexample:
  "python_path_buf 1024 (CHR ''/'' # replicate 600 CHR ''c'')
       (CHR ''/'' # replicate 600 CHR ''h'') ''3.11''
     \<noteq> search_path_spec (CHR ''/'' # replicate 600 CHR ''c'')
           (CHR ''/'' # replicate 600 CHR ''h'') ''3.11''"
proof
  assume "python_path_buf 1024 (CHR ''/'' # replicate 600 CHR ''c'')
            (CHR ''/'' # replicate 600 CHR ''h'') ''3.11''
          = search_path_spec (CHR ''/'' # replicate 600 CHR ''c'')
              (CHR ''/'' # replicate 600 CHR ''h'') ''3.11''"
  then have "length (python_path_buf 1024 (CHR ''/'' # replicate 600 CHR ''c'')
                       (CHR ''/'' # replicate 600 CHR ''h'') ''3.11'')
             = length (search_path_spec (CHR ''/'' # replicate 600 CHR ''c'')
                         (CHR ''/'' # replicate 600 CHR ''h'') ''3.11'')"
    by simp
  then show False
    by (simp add: python_path_buf_def snprintf_c_def search_path_spec_def)
qed

section \<open>Variant B: the library handle\<close>

text \<open>
  C2. After a successful load the handle is acquired once and released once, the
  release being the last call of the run: when the entry symbol does not resolve,
  the entry point is not called and the exit code is 1; when it resolves, the entry
  point is called with the whole argument vector and its result is the exit code.
\<close>

theorem dl_handle_released_once:
  assumes "realpath_null pf (argv0 argv) = Some exe_path"
      and "dlopen pf (framework_path exe_path) = Inr handle"
  shows "length (filter is_dlopen (fst (main_B pf argv))) = 1
         \<and> filter is_dlclose (fst (main_B pf argv)) = [Ev_dlclose handle]
         \<and> last (fst (main_B pf argv)) = Ev_dlclose handle
         \<and> (case dlsym pf handle ''Py_Main'' of
              Inl err \<Rightarrow>
                snd (main_B pf argv) = 1
                \<and> Ev_call_Py_Main (int (length argv)) argv \<notin> set (fst (main_B pf argv))
            | Inr Py_Main \<Rightarrow>
                snd (main_B pf argv) = Py_Main (int (length argv)) argv
                \<and> Ev_call_Py_Main (int (length argv)) argv \<in> set (fst (main_B pf argv)))"
  using assms
  by (simp add: main_B_def load_and_run_def split: sum.split)


lemma framework_path_app: "framework_path ''/App/Contents/Resources/python3'' = ''/App/Contents/Resources/../Frameworks/Python.framework/Versions/3.11/Python''"
  by (simp add: framework_path_def framework_offset_def snprintf_c_def)

theorem dl_handle_released_once_witness:
  "main_B (dl_example (Some ''/App/Contents/Resources/python3'')
             ''/App/Contents/Resources/../Frameworks/Python.framework/Versions/3.11/Python'' False)
          [''python3'', ''-V'']
     = ([Ev_free,
         Ev_setenv ''PYTHONHOME'' ''/App/Contents/Resources/../Frameworks/Python.framework/Versions/3.11'' 1,
         Ev_dlopen ''/App/Contents/Resources/../Frameworks/Python.framework/Versions/3.11/Python'',
         Ev_dlsym 7 ''Py_Main'',
         Stderr (''Failed to find Py_Main: symbol not found'' @ [CHR 0x0A]),
         Ev_dlclose 7], 1)
   \<and> filter is_dlclose (fst (main_B (dl_example (Some ''/App/Contents/Resources/python3'')
             ''/App/Contents/Resources/../Frameworks/Python.framework/Versions/3.11/Python'' False)
          [''python3'', ''-V''])) = [Ev_dlclose 7]
   \<and> filter is_dlclose (fst (main_B (dl_example (Some ''/App/Contents/Resources/python3'')
             ''/App/Contents/Resources/../Frameworks/Python.framework/Versions/3.11/Python'' True)
          [''python3'', ''-V''])) = [Ev_dlclose 7]
   \<and> snd (main_B (dl_example (Some ''/App/Contents/Resources/python3'')
             ''/App/Contents/Resources/../Frameworks/Python.framework/Versions/3.11/Python'' True)
          [''python3'', ''-V'']) = 2"
proof -
  let ?lib = "''/App/Contents/Resources/../Frameworks/Python.framework/Versions/3.11/Python''"
  let ?pf = "\<lambda>b. dl_example (Some ''/App/Contents/Resources/python3'') ?lib b"
  have r: "realpath_null (?pf b) (argv0 [''python3'', ''-V'']) = Some ''/App/Contents/Resources/python3''" for b
    by (simp add: dl_example_def argv0_def)
  have d: "dlopen (?pf b) (framework_path ''/App/Contents/Resources/python3'') = Inr 7" for b
    by (simp add: dl_example_def framework_path_app)
  have s0: "dlsym (?pf False) 7 ''Py_Main'' = Inl ''symbol not found''"
    by (simp add: dl_example_def)
  have s1: "dlsym (?pf True) 7 ''Py_Main'' = Inr (\<lambda>argc argv. argc)"
    by (simp add: dl_example_def)
  have t: "main_B (?pf False) [''python3'', ''-V'']
     = ([Ev_free,
         Ev_setenv ''PYTHONHOME'' ''/App/Contents/Resources/../Frameworks/Python.framework/Versions/3.11'' 1,
         Ev_dlopen ?lib,
         Ev_dlsym 7 ''Py_Main'',
         Stderr (''Failed to find Py_Main: symbol not found'' @ [CHR 0x0A]),
         Ev_dlclose 7], 1)"
    using d [of False]
    by (simp add: main_B_def load_and_run_def r s0 framework_path_app python_home_B_def
          strncpy_c_def Let_def)
  from dl_handle_released_once [OF r d, of False] dl_handle_released_once [OF r d, of True] t
  show ?thesis by (simp add: s0 s1)
qed


section \<open>Variant B: the executable path\<close>

text \<open>
  Against C1: the executable path does not resolve, the development path could be
  loaded, and yet the run only reports the failure and ends with code 1.
\<close>

theorem dl_unresolved_path_counterexample:
  "realpath_null (dl_example None dev_framework_path True) (argv0 [''python3'']) = None
   \<and> main_B (dl_example None dev_framework_path True) [''python3'']
       = ([Stderr (''Could not determine executable path'' @ [CHR 0x0A])], 1)
   \<and> Ev_dlopen dev_framework_path
       \<notin> set (fst (main_B (dl_example None dev_framework_path True) [''python3'']))"
  by (simp add: main_B_def dl_example_def argv0_def)

lemma python_home_B_dev:
  "python_home_B dev_framework_path
     = ''/Users/mhm/Documents/Hobby/Marcut-2/build/MarcutApp.app/Contents/Frameworks/Python.framework/Versions/3.11''"
  by (simp add: python_home_B_def dev_framework_path_def strncpy_c_def)

lemma take3_load_and_run:
  "take 3 (fst (load_and_run pf argv fw_path))
     = [Ev_free, Ev_setenv ''PYTHONHOME'' (python_home_B fw_path) 1, Ev_dlopen fw_path]"
  by (simp add: load_and_run_def Let_def split: sum.split)

text \<open>
  C1, as the code has it. When the executable path does not resolve, the run writes
  its message and ends with code 1. The development path is the library path when the
  resolved path contains no separator; the home exported before loading is then its
  parent directory.
\<close>

theorem dl_unresolved_path_fails:
  "(realpath_null pf (argv0 argv) = None \<longrightarrow>
      main_B pf argv = ([Stderr (''Could not determine executable path'' @ [CHR 0x0A])], 1))
   \<and> (realpath_null pf (argv0 argv) = Some exe_path \<and> CHR ''/'' \<notin> set exe_path \<longrightarrow>
      take 3 (fst (main_B pf argv))
        = [Ev_free,
           Ev_setenv ''PYTHONHOME''
             ''/Users/mhm/Documents/Hobby/Marcut-2/build/MarcutApp.app/Contents/Frameworks/Python.framework/Versions/3.11'' 1,
           Ev_dlopen dev_framework_path])"
proof (intro conjI impI)
  assume "realpath_null pf (argv0 argv) = None"
  then show "main_B pf argv = ([Stderr (''Could not determine executable path'' @ [CHR 0x0A])], 1)"
    by (simp add: main_B_def)
next
  assume a: "realpath_null pf (argv0 argv) = Some exe_path \<and> CHR ''/'' \<notin> set exe_path"
  then have "strrchr exe_path CHR ''/'' = None" by (simp add: strrchr_None_iff)
  then have "framework_path exe_path = dev_framework_path" by (simp add: framework_path_def)
  with a have "main_B pf argv = load_and_run pf argv dev_framework_path"
    by (simp add: main_B_def)
  then show "take 3 (fst (main_B pf argv))
        = [Ev_free,
           Ev_setenv ''PYTHONHOME''
             ''/Users/mhm/Documents/Hobby/Marcut-2/build/MarcutApp.app/Contents/Frameworks/Python.framework/Versions/3.11'' 1,
           Ev_dlopen dev_framework_path]"
    by (simp only: take3_load_and_run python_home_B_dev)
qed

theorem dl_unresolved_path_fails_witness:
  "realpath_null (dl_example None dev_framework_path True) (argv0 [''python3'']) = None
   \<and> main_B (dl_example None dev_framework_path True) [''python3'']
       = ([Stderr (''Could not determine executable path'' @ [CHR 0x0A])], 1)
   \<and> realpath_null (dl_example (Some ''python3'') dev_framework_path True) (argv0 [''python3''])
       = Some ''python3''
   \<and> CHR ''/'' \<notin> set ''python3''
   \<and> take 3 (fst (main_B (dl_example (Some ''python3'') dev_framework_path True) [''python3'']))
        = [Ev_free,
           Ev_setenv ''PYTHONHOME''
             ''/Users/mhm/Documents/Hobby/Marcut-2/build/MarcutApp.app/Contents/Frameworks/Python.framework/Versions/3.11'' 1,
           Ev_dlopen dev_framework_path]"
proof -
  have h1: "realpath_null (dl_example None dev_framework_path True) (argv0 [''python3'']) = None"
    by (simp add: dl_example_def argv0_def)
  have h2: "realpath_null (dl_example (Some ''python3'') dev_framework_path True)
              (argv0 [''python3'']) = Some ''python3'' \<and> CHR ''/'' \<notin> set ''python3''"
    by (simp add: dl_example_def argv0_def)
  from dl_unresolved_path_fails [THEN conjunct1, THEN mp, OF h1]
    dl_unresolved_path_fails [THEN conjunct2, THEN mp, OF h2] h1 h2
  show ?thesis by simp
qed

section \<open>Variant B: the library path and the exported home\<close>

lemma python_home_B_joined:
  assumes "length exe_dir + 52 < 1024"
  shows "python_home_B (exe_dir @ ''/../Frameworks/Python.framework/Versions/3.11/Python'')
           = exe_dir @ ''/../Frameworks/Python.framework/Versions/3.11''"
proof -
  let ?home = "exe_dir @ ''/../Frameworks/Python.framework/Versions/3.11''"
  have eq: "exe_dir @ ''/../Frameworks/Python.framework/Versions/3.11/Python''
              = ?home @ CHR ''/'' # ''Python''" by simp
  have cp: "strncpy_c 1024 (?home @ CHR ''/'' # ''Python'') = ?home @ CHR ''/'' # ''Python''"
    using assms by (simp add: strncpy_c_def)
  have "strrchr (?home @ CHR ''/'' # ''Python'') CHR ''/'' = Some (length ?home)"
    by (rule strrchr_append_sep) simp
  then show ?thesis
    unfolding eq python_home_B_def cp by (simp add: Let_def)
qed

text \<open>
  C9, as the code has it. When the resolved executable path is \<open>exe_dir/name\<close> and
  \<open>exe_dir\<close> joined with the 52-byte offset fits the 1024-byte buffer, the run first
  exports the parent directory of the library path as PYTHONHOME and then loads the
  library at \<open>exe_dir\<close> joined with the offset.
\<close>

theorem dl_library_path_when_it_fits:
  assumes "realpath_null pf (argv0 argv) = Some (exe_dir @ CHR ''/'' # name)"
      and "CHR ''/'' \<notin> set name"
      and "length exe_dir + 52 < 1024"
  shows "take 3 (fst (main_B pf argv))
           = [Ev_free,
              Ev_setenv ''PYTHONHOME''
                (exe_dir @ ''/../Frameworks/Python.framework/Versions/3.11'') 1,
              Ev_dlopen (exe_dir @ ''/../Frameworks/Python.framework/Versions/3.11/Python'')]"
proof -
  have "strrchr (exe_dir @ CHR ''/'' # name) CHR ''/'' = Some (length exe_dir)"
    using assms(2) by (rule strrchr_append_sep)
  then have fw: "framework_path (exe_dir @ CHR ''/'' # name)
                   = exe_dir @ ''/../Frameworks/Python.framework/Versions/3.11/Python''"
    using assms(3) by (simp add: framework_path_def framework_offset_def snprintf_c_def)
  have "main_B pf argv
          = load_and_run pf argv (exe_dir @ ''/../Frameworks/Python.framework/Versions/3.11/Python'')"
    using assms(1) by (simp add: main_B_def fw)
  then show ?thesis
    by (simp only: take3_load_and_run python_home_B_joined [OF assms(3)])
qed

theorem dl_library_path_when_it_fits_witness:
  "realpath_null (dl_example (Some ''/App/Contents/Resources/python3'')
                    ''/App/Contents/Resources/../Frameworks/Python.framework/Versions/3.11/Python'' True)
      (argv0 [''python3'']) = Some (''/App/Contents/Resources'' @ CHR ''/'' # ''python3'')
   \<and> CHR ''/'' \<notin> set ''python3''
   \<and> length ''/App/Contents/Resources'' + 52 < 1024
   \<and> take 3 (fst (main_B (dl_example (Some ''/App/Contents/Resources/python3'')
                    ''/App/Contents/Resources/../Frameworks/Python.framework/Versions/3.11/Python'' True)
                  [''python3'']))
       = [Ev_free,
          Ev_setenv ''PYTHONHOME''
            ''/App/Contents/Resources/../Frameworks/Python.framework/Versions/3.11'' 1,
          Ev_dlopen ''/App/Contents/Resources/../Frameworks/Python.framework/Versions/3.11/Python'']"
proof -
  have h1: "realpath_null (dl_example (Some ''/App/Contents/Resources/python3'')
                    ''/App/Contents/Resources/../Frameworks/Python.framework/Versions/3.11/Python'' True)
      (argv0 [''python3'']) = Some (''/App/Contents/Resources'' @ CHR ''/'' # ''python3'')"
    by (simp add: dl_example_def argv0_def)
  have h2: "CHR ''/'' \<notin> set ''python3''" by simp
  have h3: "length ''/App/Contents/Resources'' + 52 < 1024" by simp
  from dl_library_path_when_it_fits [OF h1 h2 h3] h1 h2 h3
  show ?thesis by simp
qed

lemma length_long_dir: "length long_dir = 1001"
  by (simp add: long_dir_def)

lemma framework_path_long:
  "framework_path (long_dir @ ''/python3'') = long_dir @ ''/../Frameworks/Python.''"
proof -
  have "strrchr (long_dir @ CHR ''/'' # ''python3'') CHR ''/'' = Some (length long_dir)"
    by (rule strrchr_append_sep) simp
  then show ?thesis
    by (simp add: framework_path_def framework_offset_def snprintf_c_def length_long_dir)
qed

lemma python_home_B_long:
  "python_home_B (long_dir @ ''/../Frameworks/Python.'') = long_dir @ ''/../Frameworks''"
proof -
  let ?home = "long_dir @ ''/../Frameworks''"
  have eq: "long_dir @ ''/../Frameworks/Python.'' = ?home @ CHR ''/'' # ''Python.''" by simp
  have cp: "strncpy_c 1024 (?home @ CHR ''/'' # ''Python.'') = ?home @ CHR ''/'' # ''Python.''"
    by (simp add: strncpy_c_def length_long_dir)
  have "strrchr (?home @ CHR ''/'' # ''Python.'') CHR ''/'' = Some (length ?home)"
    by (rule strrchr_append_sep) simp
  then show ?thesis
    unfolding eq python_home_B_def cp by (simp add: Let_def)
qed

text \<open>
  Against C9 for every path: with an executable directory of 1001 bytes the buffer
  holds only 22 bytes of the offset, and the library path handed to the loader is not
  the directory joined with the offset.
\<close>

theorem dl_library_path_counterexample:
  "realpath_null (dl_example (Some (long_dir @ ''/python3'')) (long_dir @ framework_offset) True)
      (argv0 [''python3'']) = Some (long_dir @ ''/python3'')
   \<and> take 3 (fst (main_B (dl_example (Some (long_dir @ ''/python3''))
                            (long_dir @ framework_offset) True) [''python3'']))
       = [Ev_free,
          Ev_setenv ''PYTHONHOME'' (long_dir @ ''/../Frameworks'') 1,
          Ev_dlopen (long_dir @ ''/../Frameworks/Python.'')]
   \<and> long_dir @ ''/../Frameworks/Python.'' \<noteq> long_dir @ framework_offset"
proof -
  have r: "realpath_null (dl_example (Some (long_dir @ ''/python3'')) (long_dir @ framework_offset) True)
      (argv0 [''python3'']) = Some (long_dir @ ''/python3'')"
    by (simp add: dl_example_def argv0_def)
  have "main_B (dl_example (Some (long_dir @ ''/python3'')) (long_dir @ framework_offset) True)
          [''python3'']
        = load_and_run (dl_example (Some (long_dir @ ''/python3'')) (long_dir @ framework_offset) True)
            [''python3''] (long_dir @ ''/../Frameworks/Python.'')"
    by (simp add: main_B_def r framework_path_long)
  then have "take 3 (fst (main_B (dl_example (Some (long_dir @ ''/python3''))
                            (long_dir @ framework_offset) True) [''python3'']))
       = [Ev_free,
          Ev_setenv ''PYTHONHOME'' (long_dir @ ''/../Frameworks'') 1,
          Ev_dlopen (long_dir @ ''/../Frameworks/Python.'')]"
    by (simp only: take3_load_and_run python_home_B_long)
  moreover have "long_dir @ ''/../Frameworks/Python.'' \<noteq> long_dir @ framework_offset"
    by (simp add: framework_offset_def)
  ultimately show ?thesis using r by simp
qed

section \<open>Variant A: the shape of a run\<close>

text \<open>
  A run either stops at a local precondition with one message and code 1, or passes
  all of them and is the configuration stage on the buffers computed from the
  contents directory and the resolved home.
\<close>

lemma main_A_shape:
  obtains (fail) m where "main_A pf argv = ([Stderr m], Returned 1)"
  | (run) exe a c h where
      "NSGetExecutablePath pf (PATH_MAX pf) = Some exe"
      "dirname pf (Some exe) = Some a"
      "dirname pf (Some a) = Some c"
      "realpath pf (python_home_link_buf (PATH_MAX pf) c) = Some h"
      "access_R_OK pf (python_site_path_buf (PATH_MAX pf) c)"
      "main_A pf argv =
         configure_and_run pf argv (program_name_buf (PATH_MAX pf) h) h
           (python_path_buf (PATH_MAX pf) c h (python_version h))"
proof (cases "NSGetExecutablePath pf (PATH_MAX pf)")
  case None
  then show thesis using fail by (simp add: main_A_def)
next
  case exe: (Some exe)
  show thesis
  proof (cases "dirname pf (Some exe)")
    case None
    then show thesis using fail exe by (simp add: main_A_def Let_def)
  next
    case a: (Some a)
    show thesis
    proof (cases "dirname pf (Some a)")
      case None
      then show thesis using fail exe a by (simp add: main_A_def Let_def)
    next
      case c: (Some c)
      show thesis
      proof (cases "realpath pf (python_home_link_buf (PATH_MAX pf) c)")
        case None
        then show thesis using fail exe a c by (simp add: main_A_def Let_def)
      next
        case h: (Some h)
        show thesis
        proof (cases "access_R_OK pf (python_site_path_buf (PATH_MAX pf) c)")
          case False
          then show thesis using fail exe a c h by (simp add: main_A_def Let_def)
        next
          case True
          then have "main_A pf argv =
             configure_and_run pf argv (program_name_buf (PATH_MAX pf) h) h
               (python_path_buf (PATH_MAX pf) c h (python_version h))"
            using exe a c h by (simp add: main_A_def Let_def)
          with exe a c h True show thesis by (rule run)
        qed
      qed
    qed
  qed
qed

lemma init_configs_configure_and_run:
  assumes "cfg \<in> set (init_configs (fst (configure_and_run pf argv pn h pp)))"
  shows "program_name cfg = Some pn \<and> home cfg = Some h \<and> pythonpath_env cfg = Some pp
         \<and> argv_cfg cfg = argv
         \<and> isolated cfg = 1 \<and> use_environment cfg = 0 \<and> user_site_directory cfg = 0
         \<and> write_bytecode cfg = 0 \<and> configure_c_stdio cfg = 0 \<and> buffered_stdio cfg = 0"
  using assms
  by (auto simp: configure_and_run_def Let_def handle_status_def set_bytes_string_def
        set_bytes_argv_def split: if_splits)

lemma set_bytes_argv_configure_and_run:
  assumes "Ev_PyConfig_SetBytesArgv n a st \<in> set (fst (configure_and_run pf argv pn h pp))"
  shows "n = int (length argv) \<and> a = argv"
  using assms
  by (auto simp: configure_and_run_def Let_def handle_status_def split: if_splits)

section \<open>Variant A: local precondition failures\<close>

lemma python_home_link_buf_fits:
  "length c + 45 < pmax \<Longrightarrow>
     python_home_link_buf pmax c = c @ ''/Frameworks/Python.framework/Versions/Current''"
  by (simp add: python_home_link_buf_def snprintf_c_def)

lemma python_site_path_buf_fits:
  "length c + 22 < pmax \<Longrightarrow> python_site_path_buf pmax c = c @ ''/Resources/python_site''"
  by (simp add: python_site_path_buf_def snprintf_c_def)

text \<open>
  C4, as the code has it. The run is one message on standard error, prefixed
  python3_embed and naming the stage, and exit code 1, with no call of the runtime's
  configuration API, in each of these cases: the executable path is not obtained;
  \<^verbatim>\<open>dirname\<close> returns NULL for the executable's directory or for its parent;
  the Versions/Current link under the contents directory does not resolve, its path
  fitting the \<open>PATH_MAX\<close> buffer; the bundled site directory is not readable, its path
  fitting the buffer (the message is then that of the site stage, or that of the
  home stage when the link buffer does not resolve before).
\<close>

theorem precondition_failures_when_paths_fit:
  "(NSGetExecutablePath pf (PATH_MAX pf) = None \<longrightarrow>
      main_A pf argv
        = ([Stderr (''python3_embed: Failed to get executable path'' @ [CHR 0x0A])], Returned 1))
   \<and> (NSGetExecutablePath pf (PATH_MAX pf) = Some exe
        \<and> (dirname pf (Some exe) = None \<or> dirname pf (dirname pf (Some exe)) = None) \<longrightarrow>
      main_A pf argv
        = ([Stderr (''python3_embed: Failed to resolve app directory structure'' @ [CHR 0x0A])],
           Returned 1))
   \<and> (NSGetExecutablePath pf (PATH_MAX pf) = Some exe \<and> dirname pf (Some exe) = Some a
        \<and> dirname pf (Some a) = Some c
        \<and> length c + 45 < PATH_MAX pf
        \<and> realpath pf (c @ ''/Frameworks/Python.framework/Versions/Current'') = None \<longrightarrow>
      main_A pf argv
        = ([Stderr (''python3_embed: Unable to resolve Python home at ''
                    @ c @ ''/Frameworks/Python.framework/Versions/Current'' @ [CHR 0x0A])],
           Returned 1))
   \<and> (NSGetExecutablePath pf (PATH_MAX pf) = Some exe \<and> dirname pf (Some exe) = Some a
        \<and> dirname pf (Some a) = Some c
        \<and> length c + 22 < PATH_MAX pf
        \<and> \<not> access_R_OK pf (c @ ''/Resources/python_site'') \<longrightarrow>
      main_A pf argv
        = (case realpath pf (python_home_link_buf (PATH_MAX pf) c) of
             None \<Rightarrow>
               ([Stderr (''python3_embed: Unable to resolve Python home at ''
                         @ python_home_link_buf (PATH_MAX pf) c @ [CHR 0x0A])], Returned 1)
           | Some python_home \<Rightarrow>
               ([Stderr (''python3_embed: python_site not found at ''
                         @ c @ ''/Resources/python_site'' @ [CHR 0x0A])], Returned 1)))"
proof (intro conjI impI)
  assume "NSGetExecutablePath pf (PATH_MAX pf) = None"
  then show "main_A pf argv
        = ([Stderr (''python3_embed: Failed to get executable path'' @ [CHR 0x0A])], Returned 1)"
    by (simp add: main_A_def)
next
  assume h: "NSGetExecutablePath pf (PATH_MAX pf) = Some exe
        \<and> (dirname pf (Some exe) = None \<or> dirname pf (dirname pf (Some exe)) = None)"
  then show "main_A pf argv
        = ([Stderr (''python3_embed: Failed to resolve app directory structure'' @ [CHR 0x0A])],
           Returned 1)"
    by (auto simp: main_A_def Let_def split: option.splits)
next
  assume h: "NSGetExecutablePath pf (PATH_MAX pf) = Some exe \<and> dirname pf (Some exe) = Some a
        \<and> dirname pf (Some a) = Some c
        \<and> length c + 45 < PATH_MAX pf
        \<and> realpath pf (c @ ''/Frameworks/Python.framework/Versions/Current'') = None"
  then have "python_home_link_buf (PATH_MAX pf) c
               = c @ ''/Frameworks/Python.framework/Versions/Current''"
    by (simp add: python_home_link_buf_fits)
  with h show "main_A pf argv
        = ([Stderr (''python3_embed: Unable to resolve Python home at ''
                    @ c @ ''/Frameworks/Python.framework/Versions/Current'' @ [CHR 0x0A])],
           Returned 1)"
    by (simp add: main_A_def Let_def)
next
  assume h: "NSGetExecutablePath pf (PATH_MAX pf) = Some exe \<and> dirname pf (Some exe) = Some a
        \<and> dirname pf (Some a) = Some c
        \<and> length c + 22 < PATH_MAX pf
        \<and> \<not> access_R_OK pf (c @ ''/Resources/python_site'')"
  then have "python_site_path_buf (PATH_MAX pf) c = c @ ''/Resources/python_site''"
    by (simp add: python_site_path_buf_fits)
  with h show "main_A pf argv
        = (case realpath pf (python_home_link_buf (PATH_MAX pf) c) of
             None \<Rightarrow>
               ([Stderr (''python3_embed: Unable to resolve Python home at ''
                         @ python_home_link_buf (PATH_MAX pf) c @ [CHR 0x0A])], Returned 1)
           | Some python_home \<Rightarrow>
               ([Stderr (''python3_embed: python_site not found at ''
                         @ c @ ''/Resources/python_site'' @ [CHR 0x0A])], Returned 1))"
    by (simp add: main_A_def Let_def split: option.splits)
qed

section \<open>Variant A: the configuration handed to the runtime\<close>

text \<open>
  C5. Every configuration handed to the initialisation call holds the argument vector
  the process was started with, entry by entry, and the call that stores it receives
  the original count and vector.
\<close>

theorem argv_forwarded:
  "(\<forall>cfg \<in> set (init_configs (fst (main_A pf argv))). argv_cfg cfg = argv)
   \<and> (\<forall>n a st. Ev_PyConfig_SetBytesArgv n a st \<in> set (fst (main_A pf argv)) \<longrightarrow>
         n = int (length argv) \<and> a = argv)"
proof (cases pf argv rule: main_A_shape)
  case (fail m)
  then show ?thesis by simp
next
  case (run exe a c h)
  show ?thesis
    unfolding run(6)
    using init_configs_configure_and_run set_bytes_argv_configure_and_run by blast
qed

text \<open>
  C7. Every configuration handed to the initialisation call has the host environment,
  the user site directory, bytecode writing and the runtime's configuration and
  buffering of the standard streams switched off (and isolation switched on),
  whatever the freshly initialised configuration held.
\<close>

theorem isolation_flags_set:
  assumes "cfg \<in> set (init_configs (fst (main_A pf argv)))"
  shows "use_environment cfg = 0 \<and> user_site_directory cfg = 0 \<and> write_bytecode cfg = 0
         \<and> configure_c_stdio cfg = 0 \<and> buffered_stdio cfg = 0 \<and> isolated cfg = 1"
proof (cases pf argv rule: main_A_shape)
  case (fail m)
  with assms show ?thesis by simp
next
  case (run exe a c h)
  with assms init_configs_configure_and_run show ?thesis by metis
qed


lemma main_A_bundle:
  "main_A bundle_platform argv
     = ([Ev_PyConfig_InitPythonConfig,
         Ev_PyConfig_SetBytesString Program_name
           ''/App/Contents/Frameworks/Python.framework/Versions/3.11/bin/python3'' PyStatus_Ok,
         Ev_PyConfig_SetBytesString Home
           ''/App/Contents/Frameworks/Python.framework/Versions/3.11'' PyStatus_Ok,
         Ev_PyConfig_SetBytesString Pythonpath_env
           ''/App/Contents/Resources/python_site:/App/Contents/Frameworks/Python.framework/Versions/3.11/lib/python3.11:/App/Contents/Frameworks/Python.framework/Versions/3.11/lib/python3.11/lib-dynload'' PyStatus_Ok,
         Ev_PyConfig_SetBytesArgv (int (length argv)) argv PyStatus_Ok,
         Ev_Py_InitializeFromConfig (bundle_config argv) PyStatus_Ok,
         Ev_PyConfig_Clear,
         Ev_Py_RunMain 0], Returned 0)"
  by (simp add: main_A_def bundle_platform_def Let_def python_home_link_buf_def
        python_site_path_buf_def program_name_buf_def python_path_buf_def python_version_def
        snprintf_c_def configure_and_run_def handle_status_def set_bytes_string_def
        set_bytes_argv_def default_config_def bundle_config_def)

lemma main_A_failing_init:
  "main_A failing_init_platform argv
     = ([Ev_PyConfig_InitPythonConfig,
         Ev_PyConfig_SetBytesString Program_name
           ''/App/Contents/Frameworks/Python.framework/Versions/3.11/bin/python3'' PyStatus_Ok,
         Ev_PyConfig_SetBytesString Home
           ''/App/Contents/Frameworks/Python.framework/Versions/3.11'' PyStatus_Ok,
         Ev_PyConfig_SetBytesString Pythonpath_env
           ''/App/Contents/Resources/python_site:/App/Contents/Frameworks/Python.framework/Versions/3.11/lib/python3.11:/App/Contents/Frameworks/Python.framework/Versions/3.11/lib/python3.11/lib-dynload'' PyStatus_Ok,
         Ev_PyConfig_SetBytesArgv (int (length argv)) argv PyStatus_Ok,
         Ev_Py_InitializeFromConfig (bundle_config argv) (PyStatus_Error ''init failed''),
         Ev_PyConfig_Clear,
         Ev_Py_ExitStatusException (PyStatus_Error ''init failed'')],
        Exited (PyStatus_Error ''init failed''))"
  by (simp add: main_A_def failing_init_platform_def bundle_platform_def Let_def
        python_home_link_buf_def
        python_site_path_buf_def program_name_buf_def python_path_buf_def python_version_def
        snprintf_c_def configure_and_run_def handle_status_def set_bytes_string_def
        set_bytes_argv_def default_config_def bundle_config_def)

theorem precondition_failures_when_paths_fit_witness:
  "NSGetExecutablePath no_exe_path_platform (PATH_MAX no_exe_path_platform) = None
   \<and> main_A no_exe_path_platform [''python3'']
       = ([Stderr (''python3_embed: Failed to get executable path'' @ [CHR 0x0A])], Returned 1)
   \<and> dirname no_dirname_platform (Some ''/App/Contents/MacOS/python3'') = None
   \<and> main_A no_dirname_platform [''python3'']
       = ([Stderr (''python3_embed: Failed to resolve app directory structure'' @ [CHR 0x0A])],
          Returned 1)
   \<and> length ''/App/Contents'' + 45 < PATH_MAX broken_link_platform
   \<and> realpath broken_link_platform
         (''/App/Contents'' @ ''/Frameworks/Python.framework/Versions/Current'') = None
   \<and> main_A broken_link_platform [''python3'']
       = ([Stderr (''python3_embed: Unable to resolve Python home at /App/Contents/Frameworks/Python.framework/Versions/Current'' @ [CHR 0x0A])], Returned 1)
   \<and> length ''/App/Contents'' + 22 < PATH_MAX no_site_platform
   \<and> \<not> access_R_OK no_site_platform (''/App/Contents'' @ ''/Resources/python_site'')
   \<and> main_A no_site_platform [''python3'']
       = ([Stderr (''python3_embed: python_site not found at /App/Contents/Resources/python_site'' @ [CHR 0x0A])], Returned 1)"
proof -
  have h1: "NSGetExecutablePath no_exe_path_platform (PATH_MAX no_exe_path_platform) = None"
    by (simp add: no_exe_path_platform_def)
  have h2: "NSGetExecutablePath no_dirname_platform (PATH_MAX no_dirname_platform)
              = Some ''/App/Contents/MacOS/python3''
            \<and> (dirname no_dirname_platform (Some ''/App/Contents/MacOS/python3'') = None
                \<or> dirname no_dirname_platform
                     (dirname no_dirname_platform (Some ''/App/Contents/MacOS/python3'')) = None)"
    by (simp add: no_dirname_platform_def bundle_platform_def)
  have h3: "NSGetExecutablePath broken_link_platform (PATH_MAX broken_link_platform)
              = Some ''/App/Contents/MacOS/python3''
            \<and> dirname broken_link_platform (Some ''/App/Contents/MacOS/python3'')
              = Some ''/App/Contents/MacOS''
            \<and> dirname broken_link_platform (Some ''/App/Contents/MacOS'') = Some ''/App/Contents''
            \<and> length ''/App/Contents'' + 45 < PATH_MAX broken_link_platform
            \<and> realpath broken_link_platform
                (''/App/Contents'' @ ''/Frameworks/Python.framework/Versions/Current'') = None"
    by (simp add: broken_link_platform_def bundle_platform_def)
  have h4: "NSGetExecutablePath no_site_platform (PATH_MAX no_site_platform)
              = Some ''/App/Contents/MacOS/python3''
            \<and> dirname no_site_platform (Some ''/App/Contents/MacOS/python3'')
              = Some ''/App/Contents/MacOS''
            \<and> dirname no_site_platform (Some ''/App/Contents/MacOS'') = Some ''/App/Contents''
            \<and> length ''/App/Contents'' + 22 < PATH_MAX no_site_platform
            \<and> \<not> access_R_OK no_site_platform (''/App/Contents'' @ ''/Resources/python_site'')"
    by (simp add: no_site_platform_def bundle_platform_def)
  have r: "realpath no_site_platform (python_home_link_buf (PATH_MAX no_site_platform) ''/App/Contents'')
             = Some ''/App/Contents/Frameworks/Python.framework/Versions/3.11''"
    by (simp add: no_site_platform_def bundle_platform_def python_home_link_buf_def snprintf_c_def)
  have d: "dirname no_dirname_platform (Some ''/App/Contents/MacOS/python3'') = None"
    by (simp add: no_dirname_platform_def)
  from precondition_failures_when_paths_fit [THEN conjunct1, THEN mp, OF h1]
    precondition_failures_when_paths_fit [THEN conjunct2, THEN conjunct1, THEN mp, OF h2]
    precondition_failures_when_paths_fit
      [THEN conjunct2, THEN conjunct2, THEN conjunct1, THEN mp, OF h3]
    precondition_failures_when_paths_fit
      [THEN conjunct2, THEN conjunct2, THEN conjunct2, THEN mp, OF h4]
    h1 h3 h4 d
  show ?thesis by (simp add: r)
qed

lemma length_long_contents: "length long_contents = 986"
  by (simp add: long_contents_def)

lemma python_home_link_buf_cut:
  "python_home_link_buf 1024 long_contents
     = long_contents @ ''/Frameworks/Python.framework/Versions''"
  by (simp add: python_home_link_buf_def snprintf_c_def length_long_contents)

lemma python_site_path_buf_long_contents:
  "python_site_path_buf 1024 long_contents = long_contents @ ''/Resources/python_site''"
  by (simp add: python_site_path_buf_def snprintf_c_def length_long_contents)

lemma configure_and_run_cut_link:
  "Ev_PyConfig_InitPythonConfig \<in> set (fst (configure_and_run cut_link_platform argv pn h pp))
   \<and> filter is_Stderr (fst (configure_and_run cut_link_platform argv pn h pp)) = []
   \<and> snd (configure_and_run cut_link_platform argv pn h pp) = Returned 0"
  by (simp add: configure_and_run_def Let_def handle_status_def cut_link_platform_def)

text \<open>
  Against C4 for every contents directory: with a contents directory of 986 bytes the
  link buffer holds the path only up to \<^verbatim>\<open>Versions\<close>, which resolves. The
  Versions/Current link resolves to nothing, and yet the run writes no message,
  initialises a configuration and returns the result of the runtime's main loop.
\<close>

theorem precondition_failure_counterexample:
  "dirname cut_link_platform
     (dirname cut_link_platform (NSGetExecutablePath cut_link_platform 1024)) = Some long_contents
   \<and> realpath cut_link_platform
         (long_contents @ ''/Frameworks/Python.framework/Versions/Current'') = None
   \<and> Ev_PyConfig_InitPythonConfig \<in> set (fst (main_A cut_link_platform [''python3'']))
   \<and> filter is_Stderr (fst (main_A cut_link_platform [''python3''])) = []
   \<and> snd (main_A cut_link_platform [''python3'']) = Returned 0"
proof -
  let ?home = "long_contents @ ''/Frameworks/Python.framework/Versions''"
  have d: "dirname cut_link_platform
     (dirname cut_link_platform (NSGetExecutablePath cut_link_platform 1024)) = Some long_contents"
    by (simp add: cut_link_platform_def)
  have r: "realpath cut_link_platform
         (long_contents @ ''/Frameworks/Python.framework/Versions/Current'') = None"
    by (simp add: cut_link_platform_def)
  have "main_A cut_link_platform [''python3'']
          = configure_and_run cut_link_platform [''python3'']
              (program_name_buf 1024 ?home) ?home
              (python_path_buf 1024 long_contents ?home (python_version ?home))"
    by (simp add: main_A_def cut_link_platform_def Let_def python_home_link_buf_cut
          python_site_path_buf_long_contents)
  then show ?thesis
    using d r by (simp only: configure_and_run_cut_link simp_thms)
qed

theorem argv_forwarded_witness:
  "bundle_config [''python3'', ''-c'', ''pass'']
     \<in> set (init_configs (fst (main_A bundle_platform [''python3'', ''-c'', ''pass''])))
   \<and> argv_cfg (bundle_config [''python3'', ''-c'', ''pass'']) = [''python3'', ''-c'', ''pass'']
   \<and> Ev_PyConfig_SetBytesArgv 3 [''python3'', ''-c'', ''pass''] PyStatus_Ok
       \<in> set (fst (main_A bundle_platform [''python3'', ''-c'', ''pass'']))"
proof -
  have m1: "bundle_config [''python3'', ''-c'', ''pass'']
     \<in> set (init_configs (fst (main_A bundle_platform [''python3'', ''-c'', ''pass''])))"
    by (simp add: main_A_bundle)
  have m2: "Ev_PyConfig_SetBytesArgv 3 [''python3'', ''-c'', ''pass''] PyStatus_Ok
       \<in> set (fst (main_A bundle_platform [''python3'', ''-c'', ''pass'']))"
    by (simp add: main_A_bundle)
  from argv_forwarded [THEN conjunct1, THEN bspec, OF m1]
    argv_forwarded [THEN conjunct2, THEN spec, THEN spec, THEN spec, THEN mp, OF m2] m1 m2
  show ?thesis by simp
qed

theorem isolation_flags_set_witness:
  "bundle_config [''python3'']
     \<in> set (init_configs (fst (main_A bundle_platform [''python3''])))
   \<and> use_environment (bundle_config [''python3'']) = 0
   \<and> user_site_directory (bundle_config [''python3'']) = 0
   \<and> write_bytecode (bundle_config [''python3'']) = 0
   \<and> configure_c_stdio (bundle_config [''python3'']) = 0
   \<and> buffered_stdio (bundle_config [''python3'']) = 0
   \<and> use_environment (PyConfig_InitPythonConfig bundle_platform) = 1"
proof -
  have m: "bundle_config [''python3'']
     \<in> set (init_configs (fst (main_A bundle_platform [''python3''])))"
    by (simp add: main_A_bundle)
  from isolation_flags_set [OF m] m
  show ?thesis by (simp add: bundle_platform_def default_config_def)
qed


section \<open>Variant A: runtime-reported failures and the release of the configuration\<close>

lemma configure_and_run_failure:
  assumes "e \<in> set (fst (configure_and_run pf argv pn h pp))"
      and "status_of e = Some st" and "PyStatus_Exception st"
  shows "drop (length (fst (configure_and_run pf argv pn h pp)) - 3)
              (fst (configure_and_run pf argv pn h pp))
           = [e, Ev_PyConfig_Clear, Ev_Py_ExitStatusException st]
         \<and> snd (configure_and_run pf argv pn h pp) = Exited st"
  using assms
  by (auto simp: configure_and_run_def Let_def handle_status_def split: if_splits)

lemma configure_and_run_clear_once:
  "count_list (fst (configure_and_run pf argv pn h pp)) Ev_PyConfig_Clear = 1
   \<and> filter is_Stderr (fst (configure_and_run pf argv pn h pp)) = []"
  by (simp add: configure_and_run_def Let_def handle_status_def)

lemma configure_and_run_consumed:
  assumes "Ev_Py_InitializeFromConfig cfg st \<in> set (fst (configure_and_run pf argv pn h pp))"
  shows "drop (length (fst (configure_and_run pf argv pn h pp)) - 3)
              (fst (configure_and_run pf argv pn h pp))
           = [Ev_Py_InitializeFromConfig cfg st, Ev_PyConfig_Clear,
              if PyStatus_Exception st then Ev_Py_ExitStatusException st
              else Ev_Py_RunMain (Py_RunMain pf)]"
  using assms
  by (auto simp: configure_and_run_def Let_def handle_status_def split: if_splits)

text \<open>
  C8. When an API call returns a failure status, the next two calls, the last of the
  run, clear the configuration and hand that same status to the runtime's
  \<^verbatim>\<open>Py_ExitStatusException\<close>, which ends the process. A run that initialised a
  configuration clears it exactly once and writes no message of its own. The clear
  follows the initialisation call immediately, whether that call succeeded or not.
\<close>

theorem status_handler_clears_then_exits:
  "(\<forall>e \<in> set (fst (main_A pf argv)). \<forall>st.
       status_of e = Some st \<and> PyStatus_Exception st \<longrightarrow>
         drop (length (fst (main_A pf argv)) - 3) (fst (main_A pf argv))
           = [e, Ev_PyConfig_Clear, Ev_Py_ExitStatusException st]
         \<and> snd (main_A pf argv) = Exited st)
   \<and> (Ev_PyConfig_InitPythonConfig \<in> set (fst (main_A pf argv)) \<longrightarrow>
         count_list (fst (main_A pf argv)) Ev_PyConfig_Clear = 1
         \<and> filter is_Stderr (fst (main_A pf argv)) = [])
   \<and> (\<forall>cfg st. Ev_Py_InitializeFromConfig cfg st \<in> set (fst (main_A pf argv)) \<longrightarrow>
         drop (length (fst (main_A pf argv)) - 3) (fst (main_A pf argv))
           = [Ev_Py_InitializeFromConfig cfg st, Ev_PyConfig_Clear,
              if PyStatus_Exception st then Ev_Py_ExitStatusException st
              else Ev_Py_RunMain (Py_RunMain pf)])"
proof (cases pf argv rule: main_A_shape)
  case (fail m)
  then show ?thesis by simp
next
  case (run exe a c h)
  show ?thesis
    unfolding run(6)
    using configure_and_run_failure configure_and_run_clear_once configure_and_run_consumed
    by blast
qed

theorem status_handler_clears_then_exits_witness:
  "Ev_Py_InitializeFromConfig (bundle_config [''python3'']) (PyStatus_Error ''init failed'')
     \<in> set (fst (main_A failing_init_platform [''python3'']))
   \<and> PyStatus_Exception (PyStatus_Error ''init failed'')
   \<and> drop (length (fst (main_A failing_init_platform [''python3''])) - 3)
          (fst (main_A failing_init_platform [''python3'']))
       = [Ev_Py_InitializeFromConfig (bundle_config [''python3'']) (PyStatus_Error ''init failed''),
          Ev_PyConfig_Clear, Ev_Py_ExitStatusException (PyStatus_Error ''init failed'')]
   \<and> snd (main_A failing_init_platform [''python3'']) = Exited (PyStatus_Error ''init failed'')
   \<and> Ev_PyConfig_InitPythonConfig \<in> set (fst (main_A bundle_platform [''python3'']))
   \<and> count_list (fst (main_A bundle_platform [''python3''])) Ev_PyConfig_Clear = 1
   \<and> filter is_Stderr (fst (main_A bundle_platform [''python3''])) = []
   \<and> Ev_Py_InitializeFromConfig (bundle_config [''python3'']) PyStatus_Ok
       \<in> set (fst (main_A bundle_platform [''python3'']))
   \<and> drop (length (fst (main_A bundle_platform [''python3''])) - 3)
          (fst (main_A bundle_platform [''python3'']))
       = [Ev_Py_InitializeFromConfig (bundle_config [''python3'']) PyStatus_Ok,
          Ev_PyConfig_Clear, Ev_Py_RunMain 0]"
proof -
  have m1: "Ev_Py_InitializeFromConfig (bundle_config [''python3'']) (PyStatus_Error ''init failed'')
     \<in> set (fst (main_A failing_init_platform [''python3'']))"
    by (simp add: main_A_failing_init)
  have s1: "status_of (Ev_Py_InitializeFromConfig (bundle_config [''python3''])
                         (PyStatus_Error ''init failed'')) = Some (PyStatus_Error ''init failed'')
            \<and> PyStatus_Exception (PyStatus_Error ''init failed'')"
    by simp
  have m2: "Ev_PyConfig_InitPythonConfig \<in> set (fst (main_A bundle_platform [''python3'']))"
    by (simp add: main_A_bundle)
  have m3: "Ev_Py_InitializeFromConfig (bundle_config [''python3'']) PyStatus_Ok
       \<in> set (fst (main_A bundle_platform [''python3'']))"
    by (simp add: main_A_bundle)
  have r: "Py_RunMain bundle_platform = 0" by (simp add: bundle_platform_def)
  from status_handler_clears_then_exits [THEN conjunct1, THEN bspec, OF m1, THEN spec, THEN mp, OF s1]
    status_handler_clears_then_exits [THEN conjunct2, THEN conjunct1, THEN mp, OF m2]
    status_handler_clears_then_exits [THEN conjunct2, THEN conjunct2, THEN spec, THEN spec, THEN mp, OF m3]
    m1 m2 m3
  show ?thesis by (simp add: r)
qed

section \<open>Variant A: the program name\<close>

lemma program_name_buf_fits:
  "length h + 12 < pmax \<Longrightarrow> program_name_buf pmax h = h @ ''/bin/python3''"
  by (simp add: program_name_buf_def snprintf_c_def)

text \<open>
  C10, as the code has it. When the resolved home followed by the 12 bytes of
  /bin/python3 fits the \<open>PATH_MAX\<close> buffer, the program name of every
  configuration handed to the initialisation call is the home joined with that suffix.
\<close>

theorem program_name_when_it_fits:
  assumes "NSGetExecutablePath pf (PATH_MAX pf) = Some exe"
      and "dirname pf (Some exe) = Some a"
      and "dirname pf (Some a) = Some c"
      and "realpath pf (python_home_link_buf (PATH_MAX pf) c) = Some python_home"
      and "length python_home + 12 < PATH_MAX pf"
      and "cfg \<in> set (init_configs (fst (main_A pf argv)))"
  shows "program_name cfg = Some (python_home @ ''/bin/python3'')"
proof (cases pf argv rule: main_A_shape)
  case (fail m)
  with assms(6) show ?thesis by simp
next
  case (run exe' a' c' h')
  from run(1-4) assms(1-4) have "h' = python_home" by simp
  with run(6) assms(6)
  have "cfg \<in> set (init_configs (fst (configure_and_run pf argv
            (program_name_buf (PATH_MAX pf) python_home) python_home
            (python_path_buf (PATH_MAX pf) c' python_home (python_version python_home)))))"
    by simp
  from init_configs_configure_and_run [OF this]
  show ?thesis by (simp add: program_name_buf_fits [OF assms(5)])
qed

theorem program_name_when_it_fits_witness:
  "NSGetExecutablePath bundle_platform (PATH_MAX bundle_platform) = Some ''/App/Contents/MacOS/python3''
   \<and> dirname bundle_platform (Some ''/App/Contents/MacOS/python3'') = Some ''/App/Contents/MacOS''
   \<and> dirname bundle_platform (Some ''/App/Contents/MacOS'') = Some ''/App/Contents''
   \<and> realpath bundle_platform (python_home_link_buf (PATH_MAX bundle_platform) ''/App/Contents'')
       = Some ''/App/Contents/Frameworks/Python.framework/Versions/3.11''
   \<and> length ''/App/Contents/Frameworks/Python.framework/Versions/3.11'' + 12
       < PATH_MAX bundle_platform
   \<and> bundle_config [''python3''] \<in> set (init_configs (fst (main_A bundle_platform [''python3''])))
   \<and> program_name (bundle_config [''python3''])
       = Some ''/App/Contents/Frameworks/Python.framework/Versions/3.11/bin/python3''"
proof -
  have h1: "NSGetExecutablePath bundle_platform (PATH_MAX bundle_platform)
              = Some ''/App/Contents/MacOS/python3''"
    by (simp add: bundle_platform_def)
  have h2: "dirname bundle_platform (Some ''/App/Contents/MacOS/python3'')
              = Some ''/App/Contents/MacOS''"
    by (simp add: bundle_platform_def)
  have h3: "dirname bundle_platform (Some ''/App/Contents/MacOS'') = Some ''/App/Contents''"
    by (simp add: bundle_platform_def)
  have h4: "realpath bundle_platform (python_home_link_buf (PATH_MAX bundle_platform) ''/App/Contents'')
       = Some ''/App/Contents/Frameworks/Python.framework/Versions/3.11''"
    by (simp add: bundle_platform_def python_home_link_buf_def snprintf_c_def)
  have h5: "length ''/App/Contents/Frameworks/Python.framework/Versions/3.11'' + 12
              < PATH_MAX bundle_platform"
    by (simp add: bundle_platform_def)
  have h6: "bundle_config [''python3'']
              \<in> set (init_configs (fst (main_A bundle_platform [''python3''])))"
    by (simp add: main_A_bundle)
  from program_name_when_it_fits [OF h1 h2 h3 h4 h5 h6] h1 h2 h3 h4 h5 h6
  show ?thesis by simp
qed

lemma length_long_home: "length long_home = 1016"
  by (simp add: long_home_def)

lemma program_name_buf_long: "program_name_buf 1024 long_home = long_home @ ''/bin/py''"
  by (simp add: program_name_buf_def snprintf_c_def length_long_home)

lemma init_configs_long_home:
  "map program_name (init_configs (fst (configure_and_run long_home_platform argv pn h pp)))
     = [Some pn]"
  by (simp add: configure_and_run_def Let_def handle_status_def long_home_platform_def
        bundle_platform_def set_bytes_string_def set_bytes_argv_def)

text \<open>
  Against C10 for every home: with a resolved home of 1016 bytes the buffer holds only
  7 bytes of the suffix, and the program name in the configuration ends in /bin/py.
\<close>

theorem program_name_counterexample:
  "realpath long_home_platform ''/App/Contents/Frameworks/Python.framework/Versions/Current''
     = Some long_home
   \<and> map program_name (init_configs (fst (main_A long_home_platform [''python3''])))
       = [Some (long_home @ ''/bin/py'')]
   \<and> long_home @ ''/bin/py'' \<noteq> long_home @ ''/bin/python3''"
proof -
  have "main_A long_home_platform [''python3'']
          = configure_and_run long_home_platform [''python3'']
              (program_name_buf 1024 long_home) long_home
              (python_path_buf 1024 ''/App/Contents'' long_home (python_version long_home))"
    by (simp add: main_A_def long_home_platform_def bundle_platform_def Let_def
          python_home_link_buf_def python_site_path_buf_def snprintf_c_def)
  then have "map program_name (init_configs (fst (main_A long_home_platform [''python3''])))
       = [Some (long_home @ ''/bin/py'')]"
    by (simp only: init_configs_long_home program_name_buf_long)
  then show ?thesis by (simp add: long_home_platform_def)
qed

end
